theory Spec2Isabelle
  imports Main
begin

section \<open>Strings\<close>

text \<open>
  A Python string is modelled as the list of its code points, each a HOL character (the
  code points U+0000 to U+00FF). On these \<open>str.lower()\<close> works character by character:
  it maps each capital letter to its small letter, 32 code points further on, and keeps
  every other character. The capital letters are \<open>A\<close> to \<open>Z\<close> and U+00C0 to U+00DE
  without U+00D7, the multiplication sign.
\<close>

definition upper_letters :: string where
  "upper_letters = ''ABCDEFGHIJKLMNOPQRSTUVWXYZ'' @
     [CHR 0xC0, CHR 0xC1, CHR 0xC2, CHR 0xC3, CHR 0xC4, CHR 0xC5, CHR 0xC6, CHR 0xC7,
      CHR 0xC8, CHR 0xC9, CHR 0xCA, CHR 0xCB, CHR 0xCC, CHR 0xCD, CHR 0xCE, CHR 0xCF,
      CHR 0xD0, CHR 0xD1, CHR 0xD2, CHR 0xD3, CHR 0xD4, CHR 0xD5, CHR 0xD6, CHR 0xD8,
      CHR 0xD9, CHR 0xDA, CHR 0xDB, CHR 0xDC, CHR 0xDD, CHR 0xDE]"

definition lower_letters :: string where
  "lower_letters = ''abcdefghijklmnopqrstuvwxyz'' @
     [CHR 0xE0, CHR 0xE1, CHR 0xE2, CHR 0xE3, CHR 0xE4, CHR 0xE5, CHR 0xE6, CHR 0xE7,
      CHR 0xE8, CHR 0xE9, CHR 0xEA, CHR 0xEB, CHR 0xEC, CHR 0xED, CHR 0xEE, CHR 0xEF,
      CHR 0xF0, CHR 0xF1, CHR 0xF2, CHR 0xF3, CHR 0xF4, CHR 0xF5, CHR 0xF6, CHR 0xF8,
      CHR 0xF9, CHR 0xFA, CHR 0xFB, CHR 0xFC, CHR 0xFD, CHR 0xFE]"

definition lower_char :: "char \<Rightarrow> char" where
  "lower_char c = (case map_of (zip upper_letters lower_letters) c of Some d \<Rightarrow> d | None \<Rightarrow> c)"

definition lower :: "string \<Rightarrow> string" where
  "lower s = map lower_char s"

text \<open>\<open>w in s\<close> on strings: \<open>w\<close> occurs in \<open>s\<close> as a contiguous substring.\<close>

fun startswith :: "string \<Rightarrow> string \<Rightarrow> bool" where
  "startswith s [] = True"
| "startswith [] (c # w) = False"
| "startswith (d # s) (c # w) = (d = c \<and> startswith s w)"

fun str_in :: "string \<Rightarrow> string \<Rightarrow> bool" where
  "str_in w [] = (w = [])"
| "str_in w (d # s) = (startswith (d # s) w \<or> str_in w s)"

text \<open>\<open>sep.join(items)\<close>.\<close>

fun join :: "string \<Rightarrow> string list \<Rightarrow> string" where
  "join sep [] = []"
| "join sep [x] = x"
| "join sep (x # y # ys) = x @ sep @ join sep (y # ys)"

text \<open>Truthiness of an optional string (\<open>None\<close> and the empty string are false), and \<open>a or b\<close>.\<close>

definition truthy :: "string option \<Rightarrow> bool" where
  "truthy v = (case v of None \<Rightarrow> False | Some s \<Rightarrow> s \<noteq> [])"

definition py_or :: "string option \<Rightarrow> string option \<Rightarrow> string option" where
  "py_or a b = (if truthy a then a else b)"

text \<open>\<open>str(v)\<close> of an optional string, as an f-string renders it.\<close>

definition str_of :: "string option \<Rightarrow> string" where
  "str_of v = (case v of None \<Rightarrow> ''None'' | Some s \<Rightarrow> s)"


section \<open>The knowledge table\<close>

text \<open>
  A row of the table \<open>knowledge\<close>. The table is the list of its rows in insertion order,
  which is the order in which a \<open>SELECT\<close> without \<open>ORDER BY\<close> scans them. The value of
  \<open>datetime.now()\<close> is an input of every operation that reads the clock.
\<close>

type_synonym datetime = nat

record row =
  subject :: string
  relationship :: string
  fact_text :: string
  is_immutable :: bool
  source :: string
  timestamp :: datetime

type_synonym knowledge = "row list"

text \<open>\<open>SELECT ... FROM knowledge WHERE subject = ? AND relationship = ?\<close>\<close>

definition select_where :: "knowledge \<Rightarrow> string \<Rightarrow> string \<Rightarrow> row list" where
  "select_where table subj rel = filter (\<lambda>rw. subject rw = subj \<and> relationship rw = rel) table"


section \<open>KnowledgeGraphEngine of sclm\_phase\_9\_knowledge.py\<close>

definition singular_relationships :: "string list" where
  "singular_relationships = [''shape'', ''capital'']"

definition constants :: "(string \<times> string \<times> string) list" where
  "constants =
     [(''ball'', ''shape'', ''round''),
      (''ball'', ''can_be_action'', ''thrown''),
      (''ball'', ''can_be_action'', ''caught''),
      (''car'', ''has_part'', ''engine''),
      (''car'', ''has_part'', ''wheel''),
      (''France'', ''capital'', ''Paris'')]"

definition constant_row :: "(nat \<Rightarrow> datetime) \<Rightarrow> nat \<times> string \<times> string \<times> string \<Rightarrow> row" where
  "constant_row clock = (\<lambda>(i, subj, rel, fct).
     \<lparr>subject = lower subj, relationship = lower rel, fact_text = fct,
      is_immutable = True, source = ''System_Constant'', timestamp = clock i\<rparr>)"

text \<open>
  \<open>_initialize_database\<close>: the constants are inserted only into an empty table;
  \<open>clock i\<close> is the time at which the \<open>i\<close>-th constant is inserted.
\<close>

definition initialize_database :: "(nat \<Rightarrow> datetime) \<Rightarrow> knowledge \<Rightarrow> knowledge" where
  "initialize_database clock table =
     (if length table = 0 then table @ map (constant_row clock) (enumerate 0 constants)
      else table)"

definition query_facts :: "knowledge \<Rightarrow> string \<Rightarrow> string \<Rightarrow> string list" where
  "query_facts table subj rel = map fact_text (select_where table (lower subj) (lower rel))"

text \<open>The loop of \<open>learn_fact\<close> over the existing \<open>(fact, is_immutable)\<close> pairs.\<close>

fun already_known :: "string \<Rightarrow> (string \<times> bool) list \<Rightarrow> bool" where
  "already_known fact_lower [] = False"
| "already_known fact_lower ((existing_fact, imm) # rest) =
     (if fact_lower = lower existing_fact then True else already_known fact_lower rest)"

definition learn_fact ::
  "knowledge \<Rightarrow> string \<Rightarrow> string \<Rightarrow> string \<Rightarrow> string \<Rightarrow> datetime \<Rightarrow> string \<times> knowledge" where
  "learn_fact table subj rel fct src now =
     (let subj_lower = lower subj;
          rel_lower = lower rel;
          fact_lower = lower fct;
          existing_facts =
            map (\<lambda>rw. (fact_text rw, is_immutable rw)) (select_where table subj_lower rel_lower)
      in if existing_facts \<noteq> [] \<and> rel_lower \<in> set singular_relationships
            \<and> snd (hd existing_facts)
         then (''CONFLICT_WITH_CONSTANT'', table)
         else if existing_facts \<noteq> [] \<and> already_known fact_lower existing_facts
         then (''ALREADY_KNOWN'', table)
         else (''LEARNED_SUCCESSFULLY'',
               table @ [\<lparr>subject = subj_lower, relationship = rel_lower, fact_text = fct,
                         is_immutable = False, source = src, timestamp = now\<rparr>]))"

text \<open>
  The tables the engine can hold: the table its constructor leaves from an empty database
  file, and every table a call of \<open>learn_fact\<close> leaves.
\<close>

inductive reachable :: "knowledge \<Rightarrow> bool" where
  reachable_init: "reachable (initialize_database clock [])"
| reachable_learn: "reachable table \<Longrightarrow> reachable (snd (learn_fact table subj rel fct src now))"

text \<open>
  The invariant of the reachable tables: an immutable row of a singular relationship is
  the only row of its key.
\<close>

definition immutable_singular_alone :: "knowledge \<Rightarrow> bool" where
  "immutable_singular_alone table =
     (\<forall>rw \<in> set table. is_immutable rw \<and> relationship rw \<in> set singular_relationships
        \<longrightarrow> select_where table (subject rw) (relationship rw) = [rw])"

text \<open>
  A second invariant of the reachable tables: no two rows have the same subject, the same
  relationship and facts that are equal up to case.
\<close>

definition fact_key :: "row \<Rightarrow> string \<times> string \<times> string" where
  "fact_key rw = (subject rw, relationship rw, lower (fact_text rw))"

definition facts_distinct :: "knowledge \<Rightarrow> bool" where
  "facts_distinct table = distinct (map fact_key table)"

text \<open>A clock for examples, and the table of a fresh engine under it.\<close>

definition clock0 :: "nat \<Rightarrow> datetime" where
  "clock0 i = 0"

definition seeded :: knowledge where
  "seeded = initialize_database clock0 []"


section \<open>KnowledgeGraphEngine of sclm\_phase\_10\_interactive\_graph.py\<close>

text \<open>
  Here the table is declared with \<open>UNIQUE(subject, relationship)\<close>, it is dropped and
  created again by every constructor, and \<open>learn_fact\<close> writes with
  \<open>INSERT OR REPLACE\<close>: a row with the same key is deleted and the new row is added.
\<close>

definition singular_relationships10 :: "string list" where
  "singular_relationships10 = [''shape'', ''capital'', ''state'']"

definition constants10 :: "(string \<times> string \<times> string) list" where
  "constants10 = [(''ball'', ''shape'', ''round''), (''France'', ''capital'', ''Paris'')]"

definition row_key :: "row \<Rightarrow> string \<times> string" where
  "row_key rw = (subject rw, relationship rw)"

definition unique_keys :: "knowledge \<Rightarrow> bool" where
  "unique_keys table = distinct (map row_key table)"

definition insert_or_replace :: "knowledge \<Rightarrow> row \<Rightarrow> knowledge" where
  "insert_or_replace table rw = filter (\<lambda>x. row_key x \<noteq> row_key rw) table @ [rw]"

definition initialize_database10 :: "(nat \<Rightarrow> datetime) \<Rightarrow> knowledge" where
  "initialize_database10 clock = map (constant_row clock) (enumerate 0 constants10)"

definition query_facts10 :: "knowledge \<Rightarrow> string \<Rightarrow> string \<Rightarrow> string list" where
  "query_facts10 table subj rel = map fact_text (select_where table (lower subj) (lower rel))"

definition learn_fact10 ::
  "knowledge \<Rightarrow> string \<Rightarrow> string \<Rightarrow> string \<Rightarrow> string \<Rightarrow> datetime \<Rightarrow> string \<times> knowledge" where
  "learn_fact10 table subj rel fct src now =
     (let s_lower = lower subj;
          r_lower = lower rel;
          immutable_flag =
            (case select_where table s_lower r_lower of
               [] \<Rightarrow> None
             | rw # rest \<Rightarrow> Some (is_immutable rw))
      in if immutable_flag = Some True then (''CONFLICT_WITH_CONSTANT'', table)
         else
           (let is_update = (select_where table s_lower r_lower \<noteq> []);
                table' = insert_or_replace table
                  \<lparr>subject = s_lower, relationship = r_lower, fact_text = fct,
                   is_immutable = False, source = src, timestamp = now\<rparr>
            in if is_update then (''UPDATED_BELIEF'', table')
               else (''LEARNED_SUCCESSFULLY'', table')))"

definition seeded10 :: knowledge where
  "seeded10 = initialize_database10 clock0"


section \<open>The core thought\<close>

text \<open>The dictionary that \<open>SemanticParser.parse_sentence\<close> builds, one field per key.\<close>

record thought =
  input_sentence :: string
  action :: "string option"
  agent :: "string option"
  object :: "string option"
  destination :: "string option"
  tense :: "string option"
  mood :: string
  attribute :: "string option"
  urgency :: string
  mood_connotation :: string
  tone :: string
  entities :: "(string \<times> string) list"
  preposition :: "string option"
  tense_aspect :: "string option"
  learning_fact :: "(string \<times> string \<times> string) option"
  query_fact :: "(string \<times> string) option"

text \<open>The dictionary as the parser initialises it for a sentence, before any pattern fires.\<close>

definition blank_thought :: "string \<Rightarrow> thought" where
  "blank_thought sentence =
     \<lparr>input_sentence = sentence, action = None, agent = None, object = None,
      destination = None, tense = None, mood = ''indicative'', attribute = None,
      urgency = ''neutral'', mood_connotation = ''neutral'', tone = ''neutral'',
      entities = [], preposition = None, tense_aspect = None,
      learning_fact = None, query_fact = None\<rparr>"


section \<open>ResponseEngine of sclm\_phase\_10\_interactive\_graph.py\<close>

definition format_list :: "string list \<Rightarrow> string" where
  "format_list items =
     (if items = [] then []
      else if length items = 1 then hd items
      else join '', '' (butlast items) @ '', and '' @ last items)"

definition respond_rest10 :: "thought \<Rightarrow> knowledge \<Rightarrow> string" where
  "respond_rest10 core_thought kge =
     (case (if mood core_thought = ''interrogative_fact'' then query_fact core_thought else None) of
        Some (subj, rel) \<Rightarrow>
          (let answers = query_facts10 kge subj rel
           in if answers \<noteq> []
              then (let verb = (if length answers = 1 then ''is'' else ''are'')
                    in ''Based on what I know, the '' @ rel @ '' of '' @ subj @ '' '' @ verb
                       @ '': '' @ format_list answers @ ''.'')
              else ''I don't have any information about the '' @ rel @ '' of '' @ subj @ ''.'')
      | None \<Rightarrow>
          (if truthy (attribute core_thought)
           then str_of (agent core_thought) @ '' certainly seems to be ''
                @ str_of (attribute core_thought) @ ''. That's an interesting observation.''
           else ''I understand. Thank you for telling me.''))"

definition generate_response10 :: "thought \<Rightarrow> knowledge \<Rightarrow> datetime \<Rightarrow> string \<times> knowledge" where
  "generate_response10 core_thought kge now =
     (case (if mood core_thought = ''declarative_fact'' then learning_fact core_thought else None) of
        Some (subj, rel, fct) \<Rightarrow>
          (let (result, kge1) = learn_fact10 kge subj rel fct ''user'' now
           in if result = ''LEARNED_SUCCESSFULLY''
              then (''Okay, I've learned that the '' @ rel @ '' of '' @ subj @ '' is '' @ fct @ ''.'',
                    kge1)
              else if result = ''UPDATED_BELIEF''
              then (''Okay, I've updated my belief. I now understand that the '' @ rel
                    @ '' of '' @ subj @ '' is '' @ fct @ ''.'', kge1)
              else if result = ''CONFLICT_WITH_CONSTANT''
              then (let known_fact = query_facts10 kge1 subj rel
                    in (''That's interesting, but my understanding is that the '' @ rel
                        @ '' of '' @ subj @ '' is '' @ format_list known_fact @ ''.'', kge1))
              else (respond_rest10 core_thought kge1, kge1))
      | None \<Rightarrow> (respond_rest10 core_thought kge, kge))"


section \<open>The enrichers\<close>

subsection \<open>DialogueManager.\_resolve\_context\<close>

definition resolve_context :: "thought list \<Rightarrow> thought \<Rightarrow> thought" where
  "resolve_context conversation_history current_thought =
     (let is_agent_it =
            (case agent current_thought of None \<Rightarrow> False | Some a \<Rightarrow> lower a = ''it'')
      in if is_agent_it then
           (if conversation_history \<noteq> [] then
              (let last_thought = last conversation_history;
                   antecedent = py_or (object last_thought) (agent last_thought)
               in if truthy antecedent then current_thought\<lparr>agent := antecedent\<rparr>
                  else current_thought)
            else current_thought)
         else current_thought)"

subsection \<open>NuanceEngine.analyze\_thought\<close>

definition verb_connotations :: "(string \<times> string \<times> string) list" where
  "verb_connotations =
     [(''race'', ''high'', ''hurried''),
      (''rush'', ''high'', ''stressed''),
      (''hurry'', ''high'', ''anxious''),
      (''walk'', ''low'', ''casual''),
      (''stroll'', ''low'', ''leisurely''),
      (''wander'', ''low'', ''aimless''),
      (''chase'', ''medium'', ''aggressive''),
      (''write'', ''neutral'', ''creative''),
      (''eat'', ''low'', ''neutral'')]"

definition nuance_analyze_thought :: "thought \<Rightarrow> thought" where
  "nuance_analyze_thought core_thought =
     (case action core_thought of
        None \<Rightarrow> core_thought
      | Some action_verb \<Rightarrow>
          (case map_of verb_connotations action_verb of
             None \<Rightarrow> core_thought
           | Some (u, m) \<Rightarrow> core_thought\<lparr>urgency := u, mood_connotation := m\<rparr>))"

subsection \<open>ToneEngine.analyze\_thought\<close>

definition sarcastic_positives :: "string list" where
  "sarcastic_positives = [''great'', ''perfect'', ''fantastic'', ''wonderful'', ''lovely'']"

definition negative_context_verbs :: "string list" where
  "negative_context_verbs = [''spill'', ''break'', ''lose'', ''forget'', ''drop'']"

definition tone_analyze_thought :: "thought \<Rightarrow> thought" where
  "tone_analyze_thought core_thought =
     (let core_thought1 = core_thought\<lparr>tone := ''neutral''\<rparr>;
          sentence = lower (input_sentence core_thought1);
          has_positive_word = list_ex (\<lambda>word. str_in word sentence) sarcastic_positives;
          has_negative_context =
            (case action core_thought1 of
               None \<Rightarrow> False
             | Some a \<Rightarrow> a \<in> set negative_context_verbs)
      in if has_positive_word \<and> has_negative_context
         then core_thought1\<lparr>tone := ''sarcastic''\<rparr>
         else core_thought1)"


section \<open>ResponseEngine and DialogueManager of sclm\_final\_interactive.py\<close>

text \<open>
  The values a method of the knowledge engine hands to the response engine, with their
  truthiness and their rendering in an f-string.
\<close>

datatype pyval = PyNone | PyBool bool | PyStr string

fun py_truthy :: "pyval \<Rightarrow> bool" where
  "py_truthy PyNone = False"
| "py_truthy (PyBool b) = b"
| "py_truthy (PyStr s) = (s \<noteq> [])"

fun py_str :: "pyval \<Rightarrow> string" where
  "py_str PyNone = ''None''"
| "py_str (PyBool b) = (if b then ''True'' else ''False'')"
| "py_str (PyStr s) = s"

text \<open>
  The module imports a class \<open>KnowledgeEngine\<close> that the repository does not define, so
  the engine is a parameter of the model: \<open>learn\<close> stands for its method \<open>learn_fact\<close>
  and \<open>query\<close> for its method \<open>query_fact\<close>. Each takes the engine's state and returns
  the state it leaves with either the value it returns (\<open>Inr\<close>) or the exception it
  raises (\<open>Inl\<close>).
\<close>

type_synonym ('st, 'e) learn_method =
  "'st \<Rightarrow> string \<Rightarrow> string \<Rightarrow> string \<Rightarrow> ('e + pyval) \<times> 'st"

type_synonym ('st, 'e) query_method =
  "'st \<Rightarrow> string \<Rightarrow> string \<Rightarrow> ('e + pyval) \<times> 'st"

definition respond_rest :: "thought \<Rightarrow> string" where
  "respond_rest core_thought =
     (if tone core_thought = ''sarcastic''
      then ''Oh no, that sounds frustrating. I hope everything is okay!''
      else if mood core_thought = ''interrogative''
      then ''That's a good question. I'm not sure what the answer is.''
      else if truthy (attribute core_thought)
      then str_of (agent core_thought) @ '' certainly seems to be ''
           @ str_of (attribute core_thought) @ ''. That's an interesting observation.''
      else ''I understand. Thank you for telling me.'')"

definition generate_response ::
  "('st, 'e) learn_method \<Rightarrow> ('st, 'e) query_method \<Rightarrow> thought \<Rightarrow> 'st \<Rightarrow> ('e + string) \<times> 'st" where
  "generate_response learn query core_thought ke =
     (case (if mood core_thought = ''declarative_fact'' then learning_fact core_thought else None) of
        Some (subj, rel, fct) \<Rightarrow>
          (case learn ke subj rel fct of
             (Inl e, ke1) \<Rightarrow> (Inl e, ke1)
           | (Inr success, ke1) \<Rightarrow>
               (if py_truthy success
                then Inr (''Okay, I've learned that the '' @ rel @ '' of '' @ subj @ '' is ''
                          @ fct @ ''.'')
                else Inr ''I had trouble remembering that. Could you try phrasing it differently?'',
                ke1))
      | None \<Rightarrow>
          (case (if mood core_thought = ''interrogative_fact'' then query_fact core_thought
                 else None) of
             Some (subj, rel) \<Rightarrow>
               (case query ke subj rel of
                  (Inl e, ke1) \<Rightarrow> (Inl e, ke1)
                | (Inr answer, ke1) \<Rightarrow>
                    (if py_truthy answer
                     then Inr (''Based on what I know, the '' @ rel @ '' of '' @ subj @ '' is ''
                               @ py_str answer @ ''.'')
                     else Inr (''I'm sorry, I don't have any information about the '' @ rel
                               @ '' of '' @ subj @ ''.''),
                     ke1))
           | None \<Rightarrow> (Inr (respond_rest core_thought), ke)))"

text \<open>
  The state of a \<open>DialogueManager\<close>: the conversation history and the knowledge engine.
  The parser is a parameter (\<open>parse\<close>): it is the spaCy-based \<open>SemanticParser\<close>.
\<close>

record 'st dialogue_manager =
  conversation_history :: "thought list"
  knowledge_engine :: 'st

definition handle_message ::
  "(string \<Rightarrow> thought) \<Rightarrow> ('st, 'e) learn_method \<Rightarrow> ('st, 'e) query_method
     \<Rightarrow> 'st dialogue_manager \<Rightarrow> string \<Rightarrow> ('e + string) \<times> 'st dialogue_manager" where
  "handle_message parse learn query dm message =
     (let parsed_thought = parse message;
          contextual_thought = resolve_context (conversation_history dm) parsed_thought;
          nuanced_thought = nuance_analyze_thought contextual_thought;
          final_thought = tone_analyze_thought nuanced_thought;
          dm1 = dm\<lparr>conversation_history := conversation_history dm @ [final_thought]\<rparr>;
          (response, ke1) = generate_response learn query final_thought (knowledge_engine dm1)
      in (response, dm1\<lparr>knowledge_engine := ke1\<rparr>))"

text \<open>
  The \<open>learn_fact\<close> of the phase 9 engine as a method of the parameter's type: called
  with the default source \<open>user\<close> at time \<open>now\<close>, it returns its outcome string.
\<close>

definition kge_learn :: "datetime \<Rightarrow> (knowledge, 'e) learn_method" where
  "kge_learn now table subj rel fct =
     (let (outcome, table') = learn_fact table subj rel fct ''user'' now
      in (Inr (PyStr outcome), table'))"

text \<open>
  The exceptions of the examples: \<open>AttributeError\<close>, which Python raises for a method an
  object does not have, and \<open>sqlite3.OperationalError\<close>.
\<close>

datatype error = AttributeError | OperationalError

text \<open>
  The phase 9 engine has no method \<open>query_fact\<close> (its method is \<open>query_facts\<close>): on it
  the call raises \<open>AttributeError\<close>.
\<close>

definition kge_query_fact :: "(knowledge, error) query_method" where
  "kge_query_fact table subj rel = (Inl AttributeError, table)"

text \<open>An engine whose \<open>learn_fact\<close> raises the exception \<open>e\<close>.\<close>

definition failing_learn :: "'e \<Rightarrow> ('st, 'e) learn_method" where
  "failing_learn e ke subj rel fct = (Inl e, ke)"

text \<open>A parser given by a table of sentences and their thoughts, for examples.\<close>

definition scripted_parser :: "(string \<times> thought) list \<Rightarrow> string \<Rightarrow> thought" where
  "scripted_parser script sentence =
     (case map_of script sentence of Some t \<Rightarrow> t | None \<Rightarrow> blank_thought sentence)"

text \<open>The three enrichers in the order in which a turn runs them.\<close>

definition enrich :: "thought list \<Rightarrow> thought \<Rightarrow> thought" where
  "enrich history parsed =
     tone_analyze_thought (nuance_analyze_thought (resolve_context history parsed))"


section \<open>ResponseEngine and DialogueManager of sclm\_interactive\_chat.py\<close>

definition chat_generate_response :: "thought \<Rightarrow> string" where
  "chat_generate_response final_thought =
     (if tone final_thought = ''sarcastic''
      then ''Oh no, that sounds frustrating. I hope everything is okay!''
      else if mood final_thought = ''interrogative''
      then ''That's a good question. I'm not sure what the answer is.''
      else if truthy (attribute final_thought)
      then str_of (agent final_thought) @ '' certainly seems to be ''
           @ str_of (attribute final_thought) @ ''. It's an interesting observation.''
      else ''I understand. Thank you for telling me.'')"

text \<open>\<open>get_response\<close>, as a function of the history that returns the reply and the new history.\<close>

definition get_response ::
  "(string \<Rightarrow> thought) \<Rightarrow> thought list \<Rightarrow> string \<Rightarrow> string \<times> thought list" where
  "get_response parse history message =
     (let parsed_thought = parse message;
          contextual_thought = resolve_context history parsed_thought;
          nuanced_thought = nuance_analyze_thought contextual_thought;
          final_thought = tone_analyze_thought nuanced_thought;
          history1 = history @ [final_thought];
          ai_response = chat_generate_response final_thought
      in (ai_response, history1))"


section \<open>Example strings and thoughts\<close>

text \<open>
  Two words with a letter beyond ASCII, each written with capitals and with small letters:
  U+00C9 is the capital and U+00E9 the small e with acute accent.
\<close>

definition cafe_upper :: string where
  "cafe_upper = ''CAF'' @ [CHR 0xC9]"

definition cafe_lower :: string where
  "cafe_lower = ''caf'' @ [CHR 0xE9]"

definition ecole_upper :: string where
  "ecole_upper = CHR 0xC9 # ''cole''"

definition ecole_lower :: string where
  "ecole_lower = CHR 0xE9 # ''cole''"

definition ball_is_square :: thought where
  "ball_is_square = (blank_thought ''A ball is square.'')
     \<lparr>mood := ''declarative_fact'', learning_fact := Some (''ball'', ''shape'', ''square'')\<rparr>"

definition threw_the_ball :: thought where
  "threw_the_ball = (blank_thought ''I threw the ball.'')
     \<lparr>action := Some ''throw'', agent := Some ''I'', object := Some ''the ball''\<rparr>"

definition the_cat_slept :: thought where
  "the_cat_slept = (blank_thought ''The cat slept.'')
     \<lparr>action := Some ''sleep'', agent := Some ''The cat''\<rparr>"

definition it_bounced :: thought where
  "it_bounced = (blank_thought ''It bounced.'')\<lparr>action := Some ''bounce'', agent := Some ''It''\<rparr>"

definition dropped_it :: thought where
  "dropped_it = (blank_thought ''That's just great, I dropped it.'')
     \<lparr>action := Some ''drop'', agent := Some ''I'', object := Some ''it''\<rparr>"

definition won_the_race :: thought where
  "won_the_race = (blank_thought ''That's just great, I won the race.'')
     \<lparr>action := Some ''win'', agent := Some ''I'', object := Some ''the race''\<rparr>"


section \<open>Properties of the string functions and of the list format\<close>

lemma lower_char_idem: "lower_char (lower_char c) = lower_char c"
  by (simp add: lower_char_def upper_letters_def lower_letters_def)

lemma lower_idem: "lower (lower s) = lower s"
  by (simp add: lower_def lower_char_idem)

text \<open>The table of \<open>lower_char\<close> is the rule on code points stated above.\<close>

lemma lower_char_code_point:
  "of_char (lower_char c) =
     (let n = (of_char c :: nat)
      in if (65 \<le> n \<and> n \<le> 90) \<or> (192 \<le> n \<and> n \<le> 222 \<and> n \<noteq> 215) then n + 32 else n)"
  by (cases c) (simp add: lower_char_def upper_letters_def lower_letters_def Let_def)

lemma lower_latin1:
  "lower cafe_upper = cafe_lower" "lower cafe_lower = cafe_lower"
  "lower ecole_upper = ecole_lower" "lower ecole_lower = ecole_lower"
  by (simp_all add: cafe_upper_def cafe_lower_def ecole_upper_def ecole_lower_def
      lower_def lower_char_def upper_letters_def lower_letters_def)

lemma lower_simps:
  "lower ''has_part'' = ''has_part''" "lower ''car'' = ''car''" "lower ''house'' = ''house''"
  "lower ''door'' = ''door''" "lower ''Door'' = ''door''" "lower ''Wheel'' = ''wheel''"
  "lower ''engine'' = ''engine''" "lower ''wheel'' = ''wheel''"
  "lower ''ball'' = ''ball''" "lower ''shape'' = ''shape''" "lower ''square'' = ''square''"
  "lower ''round'' = ''round''" "lower ''moon'' = ''moon''"
  by (simp_all add: lower_def lower_char_def upper_letters_def lower_letters_def)

lemma lower_char_i: "lower_char c = CHR ''i'' \<longleftrightarrow> c = CHR ''i'' \<or> c = CHR ''I''"
  by (auto simp: lower_char_def upper_letters_def lower_letters_def split: if_splits)

lemma lower_char_t: "lower_char c = CHR ''t'' \<longleftrightarrow> c = CHR ''t'' \<or> c = CHR ''T''"
  by (auto simp: lower_char_def upper_letters_def lower_letters_def split: if_splits)

lemma lower_eq_it: "lower a = ''it'' \<longleftrightarrow> a \<in> {''it'', ''It'', ''iT'', ''IT''}"
proof
  assume "lower a = ''it''"
  then obtain x y where a: "a = [x, y]" and "lower_char x = CHR ''i''" "lower_char y = CHR ''t''"
    by (auto simp: lower_def map_eq_Cons_conv)
  then show "a \<in> {''it'', ''It'', ''iT'', ''IT''}"
    by (auto simp: lower_char_i lower_char_t)
next
  assume "a \<in> {''it'', ''It'', ''iT'', ''IT''}"
  then show "lower a = ''it''"
    by (auto simp: lower_def lower_char_i lower_char_t)
qed

lemma startswith_iff: "startswith s w \<longleftrightarrow> (\<exists>ss. s = w @ ss)"
  by (induction s w rule: startswith.induct) auto

lemma str_in_iff: "str_in w s \<longleftrightarrow> (\<exists>ps ss. s = ps @ w @ ss)"
proof (induction s)
  case Nil
  then show ?case by simp
next
  case (Cons d s)
  show ?case
  proof
    assume "str_in w (d # s)"
    then consider "startswith (d # s) w" | "str_in w s" by auto
    then show "\<exists>ps ss. d # s = ps @ w @ ss"
    proof cases
      case 1
      then obtain ss where "d # s = w @ ss" by (auto simp: startswith_iff)
      then have "d # s = [] @ w @ ss" by simp
      then show ?thesis by blast
    next
      case 2
      then obtain ps ss where "s = ps @ w @ ss" using Cons.IH by auto
      then have "d # s = (d # ps) @ w @ ss" by simp
      then show ?thesis by blast
    qed
  next
    assume "\<exists>ps ss. d # s = ps @ w @ ss"
    then obtain ps ss where eq: "d # s = ps @ w @ ss" by blast
    show "str_in w (d # s)"
    proof (cases ps)
      case Nil
      with eq have "startswith (d # s) w" by (auto simp: startswith_iff)
      then show ?thesis by simp
    next
      case (Cons p ps')
      with eq have "s = ps' @ w @ ss" by simp
      then have "str_in w s" using Cons.IH by blast
      then show ?thesis by simp
    qed
  qed
qed

lemma format_list_single: "format_list [x] = x"
  by (simp add: format_list_def)

lemma format_list_snoc:
  "items \<noteq> [] \<Longrightarrow> format_list (items @ [y]) = join '', '' items @ '', and '' @ y"
  by (cases items) (simp_all add: format_list_def)

section \<open>The phase 9 knowledge engine\<close>


subsection \<open>Queries and the cases of learn\_fact\<close>

lemma already_known_iff:
  "already_known fl ex \<longleftrightarrow> (\<exists>p \<in> set ex. fl = lower (fst p))"
  by (induction fl ex rule: already_known.induct) auto

lemma select_where_append:
  "select_where (xs @ ys) s r = select_where xs s r @ select_where ys s r"
  by (simp add: select_where_def)

lemma query_facts_append:
  "query_facts (xs @ ys) s r = query_facts xs s r @ query_facts ys s r"
  by (simp add: query_facts_def select_where_append)

lemma query_facts_new_row:
  "query_facts [\<lparr>subject = lower s, relationship = lower r, fact_text = f,
                 is_immutable = b, source = src, timestamp = now\<rparr>] s r = [f]"
  by (simp add: query_facts_def select_where_def)

lemma query_facts_case_insensitive:
  "lower s' = lower s \<Longrightarrow> lower r' = lower r \<Longrightarrow> query_facts table s' r' = query_facts table s r"
  by (simp add: query_facts_def)

lemma learn_fact_cases:
  obtains (conflict) "learn_fact table subj rel fct src now = (''CONFLICT_WITH_CONSTANT'', table)"
      "select_where table (lower subj) (lower rel) \<noteq> []"
      "lower rel \<in> set singular_relationships"
      "is_immutable (hd (select_where table (lower subj) (lower rel)))"
  | (known) "learn_fact table subj rel fct src now = (''ALREADY_KNOWN'', table)"
      "\<not> (select_where table (lower subj) (lower rel) \<noteq> []
          \<and> lower rel \<in> set singular_relationships
          \<and> is_immutable (hd (select_where table (lower subj) (lower rel))))"
      "\<exists>x \<in> set (query_facts table subj rel). lower x = lower fct"
  | (learned) "learn_fact table subj rel fct src now =
        (''LEARNED_SUCCESSFULLY'',
         table @ [\<lparr>subject = lower subj, relationship = lower rel, fact_text = fct,
                   is_immutable = False, source = src, timestamp = now\<rparr>])"
      "\<not> (select_where table (lower subj) (lower rel) \<noteq> []
          \<and> lower rel \<in> set singular_relationships
          \<and> is_immutable (hd (select_where table (lower subj) (lower rel))))"
      "\<forall>x \<in> set (query_facts table subj rel). lower x \<noteq> lower fct"
proof -
  let ?ex = "select_where table (lower subj) (lower rel)"
  have hd_eq: "?ex \<noteq> [] \<Longrightarrow> snd (hd (map (\<lambda>rw. (fact_text rw, is_immutable rw)) ?ex)) = is_immutable (hd ?ex)"
    by (simp add: hd_map)
  have ak: "already_known (lower fct) (map (\<lambda>rw. (fact_text rw, is_immutable rw)) ?ex)
        \<longleftrightarrow> (\<exists>x \<in> set (query_facts table subj rel). lower x = lower fct)"
    by (auto simp: already_known_iff query_facts_def intro: sym)
  consider (a) "?ex \<noteq> [] \<and> lower rel \<in> set singular_relationships \<and> is_immutable (hd ?ex)"
    | (b) "\<not> (?ex \<noteq> [] \<and> lower rel \<in> set singular_relationships \<and> is_immutable (hd ?ex))"
        "\<exists>x \<in> set (query_facts table subj rel). lower x = lower fct"
    | (c) "\<not> (?ex \<noteq> [] \<and> lower rel \<in> set singular_relationships \<and> is_immutable (hd ?ex))"
        "\<forall>x \<in> set (query_facts table subj rel). lower x \<noteq> lower fct"
    by blast
  then show thesis
  proof cases
    case a
    then have "learn_fact table subj rel fct src now = (''CONFLICT_WITH_CONSTANT'', table)"
      using hd_eq by (simp add: learn_fact_def Let_def)
    with a show thesis using conflict by blast
  next
    case b
    from b(2) have ne: "?ex \<noteq> []" by (auto simp: query_facts_def)
    have "learn_fact table subj rel fct src now = (''ALREADY_KNOWN'', table)"
      using b ne ak hd_eq by (simp add: learn_fact_def Let_def)
    with b show thesis using known by blast
  next
    case c
    have "learn_fact table subj rel fct src now =
        (''LEARNED_SUCCESSFULLY'',
         table @ [\<lparr>subject = lower subj, relationship = lower rel, fact_text = fct,
                   is_immutable = False, source = src, timestamp = now\<rparr>])"
      using c ak hd_eq by (auto simp add: learn_fact_def Let_def)
    with c show thesis using learned by blast
  qed
qed

lemma learn_fact_outcomes:
  "fst (learn_fact table subj rel fct src now)
     \<in> {''CONFLICT_WITH_CONSTANT'', ''ALREADY_KNOWN'', ''LEARNED_SUCCESSFULLY''}"
  by (cases rule: learn_fact_cases [of table subj rel fct src now]) simp_all

lemma learn_fact_plural_new:
  assumes "lower rel \<notin> set singular_relationships"
    and "\<forall>x \<in> set (query_facts table subj rel). lower x \<noteq> lower fct"
  shows "learn_fact table subj rel fct src now =
        (''LEARNED_SUCCESSFULLY'',
         table @ [\<lparr>subject = lower subj, relationship = lower rel, fact_text = fct,
                   is_immutable = False, source = src, timestamp = now\<rparr>])"
  using assms by (cases rule: learn_fact_cases [of table subj rel fct src now]) auto

lemma learn_fact_plural_known:
  assumes "lower rel \<notin> set singular_relationships"
    and "\<exists>x \<in> set (query_facts table subj rel). lower x = lower fct"
  shows "learn_fact table subj rel fct src now = (''ALREADY_KNOWN'', table)"
  using assms by (cases rule: learn_fact_cases [of table subj rel fct src now]) auto

lemma seeded_eq: "seeded =
  [\<lparr>subject = ''ball'', relationship = ''shape'', fact_text = ''round'',
     is_immutable = True, source = ''System_Constant'', timestamp = 0\<rparr>,
  \<lparr>subject = ''ball'', relationship = ''can_be_action'',
     fact_text = ''thrown'', is_immutable = True,
     source = ''System_Constant'', timestamp = 0\<rparr>,
  \<lparr>subject = ''ball'', relationship = ''can_be_action'',
     fact_text = ''caught'', is_immutable = True,
     source = ''System_Constant'', timestamp = 0\<rparr>,
  \<lparr>subject = ''car'', relationship = ''has_part'', fact_text = ''engine'',
     is_immutable = True, source = ''System_Constant'', timestamp = 0\<rparr>,
  \<lparr>subject = ''car'', relationship = ''has_part'', fact_text = ''wheel'',
     is_immutable = True, source = ''System_Constant'', timestamp = 0\<rparr>,
  \<lparr>subject = ''france'', relationship = ''capital'', fact_text = ''Paris'',
     is_immutable = True, source = ''System_Constant'', timestamp = 0\<rparr>]"
  by (simp add: seeded_def initialize_database_def constants_def constant_row_def clock0_def
      lower_def lower_char_def upper_letters_def lower_letters_def)

lemma seeded_reachable: "reachable seeded"
  unfolding seeded_def by (rule reachable_init)

subsection \<open>Immutable constants of singular relationships\<close>

lemma seeded_alone: "immutable_singular_alone (initialize_database clock [])"
  by (simp add: immutable_singular_alone_def initialize_database_def constants_def
      constant_row_def select_where_def singular_relationships_def lower_def lower_char_def
      upper_letters_def lower_letters_def)

lemma learn_fact_alone:
  assumes "immutable_singular_alone table"
  shows "immutable_singular_alone (snd (learn_fact table subj rel fct src now))"
proof (cases rule: learn_fact_cases [of table subj rel fct src now])
  case conflict
  then show ?thesis using assms by simp
next
  case known
  then show ?thesis using assms by simp
next
  case learned
  let ?new = "\<lparr>subject = lower subj, relationship = lower rel, fact_text = fct,
                   is_immutable = False, source = src, timestamp = now\<rparr>"
  have "select_where (table @ [?new]) (subject rw) (relationship rw) = [rw]"
    if rw: "rw \<in> set (table @ [?new])" "is_immutable rw"
       "relationship rw \<in> set singular_relationships" for rw
  proof -
    from rw have in_t: "rw \<in> set table" by auto
    with assms rw have one: "select_where table (subject rw) (relationship rw) = [rw]"
      by (simp add: immutable_singular_alone_def)
    have "\<not> (subject rw = lower subj \<and> relationship rw = lower rel)"
    proof
      assume k: "subject rw = lower subj \<and> relationship rw = lower rel"
      with one have "select_where table (lower subj) (lower rel) = [rw]" by simp
      with learned(2) rw k show False by simp
    qed
    then have "select_where [?new] (subject rw) (relationship rw) = []"
      by (auto simp: select_where_def)
    with one show ?thesis by (simp add: select_where_append)
  qed
  then show ?thesis using learned(1) by (simp add: immutable_singular_alone_def)
qed

lemma reachable_alone: "reachable table \<Longrightarrow> immutable_singular_alone table"
  by (induction rule: reachable.induct) (simp_all add: seeded_alone learn_fact_alone)

text \<open>
  Claim C2. In every table the phase 9 engine can reach, if the relationship is singular
  and an immutable row exists for (subject, relationship), then \<open>learn_fact\<close> with any
  fact returns \<open>CONFLICT_WITH_CONSTANT\<close> and leaves the table as it was, and the query that
  follows returns the fact of that row and nothing else.
\<close>

theorem learn_fact_conflict_with_constant:
  assumes "reachable table"
    and "lower rel \<in> set singular_relationships"
    and "rw \<in> set table"
    and "subject rw = lower subj" and "relationship rw = lower rel"
    and "is_immutable rw"
  shows "learn_fact table subj rel fact2 src now = (''CONFLICT_WITH_CONSTANT'', table)
       \<and> query_facts (snd (learn_fact table subj rel fact2 src now)) subj rel = [fact_text rw]"
proof -
  from assms have one: "select_where table (lower subj) (lower rel) = [rw]"
    using reachable_alone [of table] by (auto simp: immutable_singular_alone_def)
  with assms have "learn_fact table subj rel fact2 src now = (''CONFLICT_WITH_CONSTANT'', table)"
    by (simp add: learn_fact_def Let_def)
  with one show ?thesis by (simp add: query_facts_def)
qed

theorem learn_fact_conflict_with_constant_witness:
  "learn_fact seeded ''Ball'' ''Shape'' ''square'' ''user'' 1 = (''CONFLICT_WITH_CONSTANT'', seeded)
   \<and> query_facts (snd (learn_fact seeded ''Ball'' ''Shape'' ''square'' ''user'' 1)) ''Ball'' ''Shape''
       = [''round'']"
proof -
  let ?rw = "\<lparr>subject = ''ball'', relationship = ''shape'', fact_text = ''round'',
     is_immutable = True, source = ''System_Constant'', timestamp = 0\<rparr>"
  have 1: "lower ''Shape'' \<in> set singular_relationships"
    by (simp add: singular_relationships_def lower_def lower_char_def upper_letters_def lower_letters_def)
  have 2: "?rw \<in> set seeded" by (simp add: seeded_eq)
  have 3: "subject ?rw = lower ''Ball''" "relationship ?rw = lower ''Shape''"
    by (simp_all add: lower_def lower_char_def upper_letters_def lower_letters_def)
  have 4: "is_immutable ?rw" by simp
  show ?thesis
    using learn_fact_conflict_with_constant [OF seeded_reachable 1 2 3 4, of "''square''" "''user''" 1]
    unfolding row.select_convs .
qed

subsection \<open>Plural relationships\<close>

lemma seeded_facts_distinct: "facts_distinct (initialize_database clock [])"
  by (simp add: facts_distinct_def fact_key_def initialize_database_def constants_def
      constant_row_def lower_def lower_char_def upper_letters_def lower_letters_def)

lemma learn_fact_facts_distinct:
  assumes "facts_distinct table"
  shows "facts_distinct (snd (learn_fact table subj rel fct src now))"
proof (cases rule: learn_fact_cases [of table subj rel fct src now])
  case conflict
  then show ?thesis using assms by simp
next
  case known
  then show ?thesis using assms by simp
next
  case learned
  have "(lower subj, lower rel, lower fct) \<notin> fact_key ` set table"
  proof
    assume "(lower subj, lower rel, lower fct) \<in> fact_key ` set table"
    then obtain rw where "rw \<in> set table" "subject rw = lower subj"
      "relationship rw = lower rel" "lower (fact_text rw) = lower fct"
      by (auto simp: fact_key_def)
    then have "fact_text rw \<in> set (query_facts table subj rel)"
      by (auto simp: query_facts_def select_where_def)
    with learned(3) \<open>lower (fact_text rw) = lower fct\<close> show False by blast
  qed
  then show ?thesis
    using assms learned(1) by (simp add: facts_distinct_def fact_key_def)
qed

lemma reachable_facts_distinct: "reachable table \<Longrightarrow> facts_distinct table"
  by (induction rule: reachable.induct) (simp_all add: seeded_facts_distinct learn_fact_facts_distinct)

lemma distinct_filter_le_one:
  "distinct (map g xs) \<Longrightarrow> length (filter (\<lambda>x. g x = k) xs) \<le> 1"
proof (induction xs)
  case Nil
  then show ?case by simp
next
  case (Cons a xs)
  show ?case
  proof (cases "g a = k")
    case True
    with Cons.prems have "\<forall>x \<in> set xs. g x \<noteq> k" by (auto simp: image_iff)
    then have "filter (\<lambda>x. g x = k) xs = []" by (simp add: filter_empty_conv)
    with True show ?thesis by simp
  next
    case False
    with Cons show ?thesis by simp
  qed
qed

lemma known_facts_le_one:
  assumes "facts_distinct table"
  shows "length (filter (\<lambda>x. lower x = lower fct) (query_facts table subj rel)) \<le> 1"
proof -
  have "filter (\<lambda>x. lower x = lower fct) (query_facts table subj rel)
      = map fact_text (filter (\<lambda>rw. fact_key rw = (lower subj, lower rel, lower fct)) table)"
    by (auto simp: query_facts_def select_where_def filter_map comp_def fact_key_def
        intro!: arg_cong [where f = "map fact_text"] filter_cong)
  then show ?thesis
    using distinct_filter_le_one [of fact_key table] assms by (simp add: facts_distinct_def)
qed

lemma known_facts_exactly_one:
  assumes "facts_distinct table"
    and "\<exists>x \<in> set (query_facts table subj rel). lower x = lower fct"
  shows "length (filter (\<lambda>x. lower x = lower fct) (query_facts table subj rel)) = 1"
proof -
  from assms(2) have "filter (\<lambda>x. lower x = lower fct) (query_facts table subj rel) \<noteq> []"
    by (simp add: filter_empty_conv)
  then have "length (filter (\<lambda>x. lower x = lower fct) (query_facts table subj rel)) \<noteq> 0"
    by simp
  with known_facts_le_one [OF assms(1), of fct subj rel] show ?thesis by linarith
qed

text \<open>
  Claim C5, as stated, fails: a fact that is stored already is not learned by the first of
  the two calls. On the table of a fresh engine the fact \<open>wheel\<close> of (car, has_part) is
  \<open>ALREADY_KNOWN\<close> at the first call.
\<close>

theorem learn_fact_twice_counterexample:
  "lower ''has_part'' \<notin> set singular_relationships
   \<and> fst (learn_fact seeded ''car'' ''has_part'' ''wheel'' ''user'' 1) = ''ALREADY_KNOWN''
   \<and> fst (learn_fact seeded ''car'' ''has_part'' ''wheel'' ''user'' 1) \<noteq> ''LEARNED_SUCCESSFULLY''
   \<and> fst (learn_fact (snd (learn_fact seeded ''car'' ''has_part'' ''wheel'' ''user'' 1))
            ''car'' ''has_part'' ''wheel'' ''user'' 2) = ''ALREADY_KNOWN''"
  by (simp add: learn_fact_def Let_def select_where_def seeded_eq lower_simps
      singular_relationships_def)

text \<open>
  Claim C5, amended. In every table the phase 9 engine can reach and for every plural
  relationship, learning a fact and then learning a fact equal to it up to case yields
  \<open>LEARNED_SUCCESSFULLY\<close> and then \<open>ALREADY_KNOWN\<close> when the fact is not yet stored for
  (subject, relationship), and \<open>ALREADY_KNOWN\<close> both times when it is. The second call
  leaves the table as the first left it, and the query then returns exactly one fact that
  equals the learned one up to case; for a fact that was not yet stored it returns what it
  returned before followed by the fact, which occurs in it exactly once.
\<close>

theorem learn_fact_twice:
  assumes "reachable table"
    and "lower rel \<notin> set singular_relationships"
    and "lower fct' = lower fct"
  shows "let (outcome1, table1) = learn_fact table subj rel fct src now;
             (outcome2, table2) = learn_fact table1 subj rel fct' src' now'
         in outcome1 = (if \<forall>x \<in> set (query_facts table subj rel). lower x \<noteq> lower fct
                        then ''LEARNED_SUCCESSFULLY'' else ''ALREADY_KNOWN'')
            \<and> outcome2 = ''ALREADY_KNOWN''
            \<and> table2 = table1
            \<and> length (filter (\<lambda>x. lower x = lower fct) (query_facts table2 subj rel)) = 1
            \<and> ((\<forall>x \<in> set (query_facts table subj rel). lower x \<noteq> lower fct)
                 \<longrightarrow> query_facts table2 subj rel = query_facts table subj rel @ [fct]
                     \<and> count_list (query_facts table2 subj rel) fct = 1)"
proof (cases "\<forall>x \<in> set (query_facts table subj rel). lower x \<noteq> lower fct")
  case True
  let ?new = "\<lparr>subject = lower subj, relationship = lower rel, fact_text = fct,
                   is_immutable = False, source = src, timestamp = now\<rparr>"
  have first: "learn_fact table subj rel fct src now = (''LEARNED_SUCCESSFULLY'', table @ [?new])"
    using assms(2) True by (rule learn_fact_plural_new)
  have q: "query_facts (table @ [?new]) subj rel = query_facts table subj rel @ [fct]"
    by (simp add: query_facts_append query_facts_new_row)
  then have "\<exists>x \<in> set (query_facts (table @ [?new]) subj rel). lower x = lower fct'"
    using assms(3) by simp
  with assms(2)
  have second: "learn_fact (table @ [?new]) subj rel fct' src' now' = (''ALREADY_KNOWN'', table @ [?new])"
    by (rule learn_fact_plural_known)
  have none: "filter (\<lambda>x. lower x = lower fct) (query_facts table subj rel) = []"
    using True by (simp add: filter_empty_conv)
  have "fct \<notin> set (query_facts table subj rel)" using True by auto
  then have cnt: "count_list (query_facts table subj rel) fct = 0" by simp
  show ?thesis
    using True by (simp add: first second q none cnt)
next
  case False
  then have known: "\<exists>x \<in> set (query_facts table subj rel). lower x = lower fct" by blast
  with assms(2)
  have first: "learn_fact table subj rel fct src now = (''ALREADY_KNOWN'', table)"
    by (rule learn_fact_plural_known)
  from known assms(3)
  have "\<exists>x \<in> set (query_facts table subj rel). lower x = lower fct'" by simp
  with assms(2)
  have second: "learn_fact table subj rel fct' src' now' = (''ALREADY_KNOWN'', table)"
    by (rule learn_fact_plural_known)
  have one: "length (filter (\<lambda>x. lower x = lower fct) (query_facts table subj rel)) = 1"
    using reachable_facts_distinct [OF assms(1)] known by (rule known_facts_exactly_one)
  show ?thesis
    using False by (simp add: first second one)
qed

theorem learn_fact_twice_witness:
  "fst (learn_fact seeded ''car'' ''has_part'' ''Door'' ''user'' 1) = ''LEARNED_SUCCESSFULLY''
   \<and> fst (learn_fact (snd (learn_fact seeded ''car'' ''has_part'' ''Door'' ''user'' 1))
            ''car'' ''has_part'' ''door'' ''user'' 2) = ''ALREADY_KNOWN''
   \<and> query_facts (snd (learn_fact (snd (learn_fact seeded ''car'' ''has_part'' ''Door'' ''user'' 1))
            ''car'' ''has_part'' ''door'' ''user'' 2)) ''car'' ''has_part''
       = [''engine'', ''wheel'', ''Door'']"
proof -
  have q: "query_facts seeded ''car'' ''has_part'' = [''engine'', ''wheel'']"
    by (simp add: query_facts_def select_where_def seeded_eq lower_simps)
  have 1: "lower ''has_part'' \<notin> set singular_relationships"
    by (simp add: lower_simps singular_relationships_def)
  have 2: "\<forall>x \<in> set (query_facts seeded ''car'' ''has_part''). lower x \<noteq> lower ''Door''"
    by (simp add: q lower_simps)
  have 3: "lower ''door'' = lower ''Door''" by (simp add: lower_simps)
  show ?thesis
    using learn_fact_twice [OF seeded_reachable 1 3, of "''car''" "''user''" 1 "''user''" 2] 2
    by (simp add: q lower_simps split: prod.splits)
qed

text \<open>
  Claim C4, as stated, fails: of two distinct facts, one that is stored already is not
  learned. On the table of a fresh engine, whose (car, has_part) holds \<open>engine\<close> and
  \<open>wheel\<close>, learning \<open>engine\<close> and then \<open>door\<close> yields \<open>ALREADY_KNOWN\<close> and then
  \<open>LEARNED_SUCCESSFULLY\<close>.
\<close>

theorem learn_fact_two_facts_counterexample:
  "lower ''has_part'' \<notin> set singular_relationships
   \<and> lower ''engine'' \<noteq> lower ''door''
   \<and> fst (learn_fact seeded ''car'' ''has_part'' ''engine'' ''user'' 1) = ''ALREADY_KNOWN''
   \<and> fst (learn_fact seeded ''car'' ''has_part'' ''engine'' ''user'' 1) \<noteq> ''LEARNED_SUCCESSFULLY''
   \<and> fst (learn_fact (snd (learn_fact seeded ''car'' ''has_part'' ''engine'' ''user'' 1))
            ''car'' ''has_part'' ''door'' ''user'' 2) = ''LEARNED_SUCCESSFULLY''"
  by (simp add: learn_fact_def Let_def select_where_def seeded_eq lower_simps
      singular_relationships_def)

text \<open>
  Claim C4, amended. For a plural relationship, learning two distinct facts (facts are
  compared up to case), neither of them stored yet for (subject, relationship), yields
  \<open>LEARNED_SUCCESSFULLY\<close> both times, and the query, whose key parts are matched up to
  case, then returns what it returned before followed by the two facts in the order they
  were learned. The query returns the empty list exactly when no row has the key.
\<close>

theorem learn_fact_two_plural_facts:
  assumes "lower rel \<notin> set singular_relationships"
    and "\<forall>x \<in> set (query_facts table subj rel). lower x \<noteq> lower fact1"
    and "\<forall>x \<in> set (query_facts table subj rel). lower x \<noteq> lower fact2"
    and "lower fact1 \<noteq> lower fact2"
    and "lower subj' = lower subj" and "lower rel' = lower rel"
  shows "(let (outcome1, table1) = learn_fact table subj rel fact1 src now;
              (outcome2, table2) = learn_fact table1 subj rel fact2 src' now'
          in outcome1 = ''LEARNED_SUCCESSFULLY'' \<and> outcome2 = ''LEARNED_SUCCESSFULLY''
             \<and> query_facts table2 subj' rel' = query_facts table subj rel @ [fact1, fact2])
       \<and> (query_facts table subj rel = []
            \<longleftrightarrow> (\<forall>rw \<in> set table. subject rw \<noteq> lower subj \<or> relationship rw \<noteq> lower rel))"
proof -
  let ?new1 = "\<lparr>subject = lower subj, relationship = lower rel, fact_text = fact1,
                   is_immutable = False, source = src, timestamp = now\<rparr>"
  let ?new2 = "\<lparr>subject = lower subj, relationship = lower rel, fact_text = fact2,
                   is_immutable = False, source = src', timestamp = now'\<rparr>"
  have first: "learn_fact table subj rel fact1 src now = (''LEARNED_SUCCESSFULLY'', table @ [?new1])"
    using assms(1,2) by (rule learn_fact_plural_new)
  have q1: "query_facts (table @ [?new1]) subj rel = query_facts table subj rel @ [fact1]"
    by (simp add: query_facts_append query_facts_new_row)
  have "\<forall>x \<in> set (query_facts (table @ [?new1]) subj rel). lower x \<noteq> lower fact2"
    using assms(3,4) by (simp add: q1)
  with assms(1)
  have "learn_fact (table @ [?new1]) subj rel fact2 src' now'
      = (''LEARNED_SUCCESSFULLY'', (table @ [?new1]) @ [?new2])"
    by (rule learn_fact_plural_new)
  then have second: "learn_fact (table @ [?new1]) subj rel fact2 src' now'
      = (''LEARNED_SUCCESSFULLY'', table @ [?new1, ?new2])"
    by simp
  have "query_facts ((table @ [?new1]) @ [?new2]) subj' rel'
      = query_facts table subj rel @ [fact1, fact2]"
    unfolding query_facts_case_insensitive [OF assms(5,6)]
    by (simp only: query_facts_append query_facts_new_row) simp
  then have q2: "query_facts (table @ [?new1, ?new2]) subj' rel'
      = query_facts table subj rel @ [fact1, fact2]"
    by simp
  have empty: "query_facts table subj rel = []
      \<longleftrightarrow> (\<forall>rw \<in> set table. subject rw \<noteq> lower subj \<or> relationship rw \<noteq> lower rel)"
    by (auto simp: query_facts_def select_where_def filter_empty_conv)
  show ?thesis
    using empty by (simp add: first second q2)
qed

theorem learn_fact_two_plural_facts_witness:
  "fst (learn_fact seeded ''car'' ''has_part'' ''Door'' ''user'' 1) = ''LEARNED_SUCCESSFULLY''
   \<and> fst (learn_fact (snd (learn_fact seeded ''car'' ''has_part'' ''Door'' ''user'' 1))
            ''car'' ''has_part'' ''roof'' ''user'' 2) = ''LEARNED_SUCCESSFULLY''
   \<and> query_facts (snd (learn_fact (snd (learn_fact seeded ''car'' ''has_part'' ''Door'' ''user'' 1))
            ''car'' ''has_part'' ''roof'' ''user'' 2)) ''CAR'' ''Has_Part''
       = [''engine'', ''wheel'', ''Door'', ''roof'']
   \<and> query_facts seeded ''car'' ''has_part'' \<noteq> []"
proof -
  have l: "lower ''roof'' = ''roof''" "lower ''CAR'' = ''car''" "lower ''Has_Part'' = ''has_part''"
    by (simp_all add: lower_def lower_char_def upper_letters_def lower_letters_def)
  have q: "query_facts seeded ''car'' ''has_part'' = [''engine'', ''wheel'']"
    by (simp add: query_facts_def select_where_def seeded_eq lower_simps)
  have 1: "lower ''has_part'' \<notin> set singular_relationships"
    by (simp add: lower_simps singular_relationships_def)
  have 2: "\<forall>x \<in> set (query_facts seeded ''car'' ''has_part''). lower x \<noteq> lower ''Door''"
    by (simp add: q lower_simps)
  have 3: "\<forall>x \<in> set (query_facts seeded ''car'' ''has_part''). lower x \<noteq> lower ''roof''"
    by (simp add: q lower_simps l)
  have 4: "lower ''Door'' \<noteq> lower ''roof''" by (simp add: lower_simps l)
  have 5: "lower ''CAR'' = lower ''car''" "lower ''Has_Part'' = lower ''has_part''"
    by (simp_all add: lower_simps l)
  show ?thesis
    using learn_fact_two_plural_facts [OF 1 2 3 4 5, of "''user''" 1 "''user''" 2]
    by (simp add: q split: prod.splits)
qed

subsection \<open>Learning and then querying\<close>

text \<open>
  Claim C10, as stated, fails: a fact that is already stored with another casing is not
  stored again, so the query does not return it as it was given.
\<close>

theorem learn_then_query_counterexample:
  "fst (learn_fact seeded ''car'' ''has_part'' ''Wheel'' ''user'' 1) = ''ALREADY_KNOWN''
   \<and> query_facts (snd (learn_fact seeded ''car'' ''has_part'' ''Wheel'' ''user'' 1))
        ''car'' ''has_part'' = [''engine'', ''wheel'']
   \<and> ''Wheel'' \<notin> set (query_facts (snd (learn_fact seeded ''car'' ''has_part'' ''Wheel'' ''user'' 1))
        ''car'' ''has_part'')"
  by (simp add: learn_fact_def Let_def query_facts_def select_where_def seeded_eq lower_simps
      singular_relationships_def)

text \<open>
  Claim C10, amended. Whenever \<open>learn_fact\<close> returns \<open>LEARNED_SUCCESSFULLY\<close>, it has added
  one row that holds the subject and the relationship in lower case and the fact as it
  was given, and a query whose subject and relationship equal the learned ones up to case
  returns what it returned before followed by that fact, character for character.
\<close>

theorem learn_then_query_round_trip:
  assumes "fst (learn_fact table subj rel fct src now) = ''LEARNED_SUCCESSFULLY''"
    and "lower subj' = lower subj" and "lower rel' = lower rel"
  shows "snd (learn_fact table subj rel fct src now)
           = table @ [\<lparr>subject = lower subj, relationship = lower rel, fact_text = fct,
                        is_immutable = False, source = src, timestamp = now\<rparr>]
       \<and> query_facts (snd (learn_fact table subj rel fct src now)) subj' rel'
           = query_facts table subj rel @ [fct]
       \<and> fct \<in> set (query_facts (snd (learn_fact table subj rel fct src now)) subj' rel')"
proof (cases rule: learn_fact_cases [of table subj rel fct src now])
  case conflict
  with assms(1) show ?thesis by simp
next
  case known
  with assms(1) show ?thesis by simp
next
  case learned
  then show ?thesis
    using query_facts_case_insensitive [OF assms(2,3)]
    by (simp add: query_facts_append query_facts_new_row)
qed

theorem learn_then_query_round_trip_witness:
  "query_facts (snd (learn_fact seeded ''Car'' ''Has_Part'' ''Door'' ''user'' 1)) ''CAR'' ''has_part''
     = [''engine'', ''wheel'', ''Door'']"
proof -
  have l: "lower ''Car'' = ''car''" "lower ''CAR'' = ''car''" "lower ''Has_Part'' = ''has_part''"
    by (simp_all add: lower_def lower_char_def upper_letters_def lower_letters_def)
  have q: "query_facts seeded ''Car'' ''Has_Part'' = [''engine'', ''wheel'']"
    by (simp add: query_facts_def select_where_def seeded_eq lower_simps l)
  have 1: "fst (learn_fact seeded ''Car'' ''Has_Part'' ''Door'' ''user'' 1) = ''LEARNED_SUCCESSFULLY''"
    by (simp add: learn_fact_def Let_def select_where_def seeded_eq lower_simps l
        singular_relationships_def)
  have 2: "lower ''CAR'' = lower ''Car''" "lower ''has_part'' = lower ''Has_Part''"
    by (simp_all add: lower_simps l)
  have "query_facts (snd (learn_fact seeded ''Car'' ''Has_Part'' ''Door'' ''user'' 1)) ''CAR'' ''has_part''
      = query_facts seeded ''Car'' ''Has_Part'' @ [''Door'']"
    using learn_then_query_round_trip [OF 1 2] by blast
  then show ?thesis by (simp only: q append.simps)
qed

subsection \<open>Letters beyond ASCII\<close>

text \<open>
  Facts and keys are compared up to case also where their letters are not ASCII: after the
  fact written with capitals, the same fact in small letters is \<open>ALREADY_KNOWN\<close>, and a
  fact learned under a subject in small letters is found under the subject with a capital.
\<close>

lemma learn_fact_latin1_known:
  "fst (learn_fact seeded ''car'' ''has_part'' cafe_upper ''user'' 1) = ''LEARNED_SUCCESSFULLY''
   \<and> fst (learn_fact (snd (learn_fact seeded ''car'' ''has_part'' cafe_upper ''user'' 1))
            ''car'' ''has_part'' cafe_lower ''user'' 2) = ''ALREADY_KNOWN''"
  by (simp add: learn_fact_def Let_def select_where_def seeded_eq singular_relationships_def
      cafe_upper_def cafe_lower_def lower_def lower_char_def upper_letters_def lower_letters_def)

lemma query_facts_latin1_key:
  "query_facts (snd (learn_fact seeded ecole_lower ''has_part'' ''door'' ''user'' 1))
     ecole_upper ''has_part'' = [''door'']"
  by (simp add: learn_fact_def Let_def query_facts_def select_where_def seeded_eq
      singular_relationships_def ecole_upper_def ecole_lower_def
      lower_def lower_char_def upper_letters_def lower_letters_def)


section \<open>The phase 10 knowledge engine\<close>

lemma distinct_filter_key:
  "distinct (map f xs) \<Longrightarrow> x \<in> set xs \<Longrightarrow> filter (\<lambda>y. f y = f x) xs = [x]"
proof (induction xs)
  case Nil
  then show ?case by simp
next
  case (Cons a xs)
  show ?case
  proof (cases "a = x")
    case True
    with Cons.prems have "\<forall>y \<in> set xs. f y \<noteq> f x" by (auto simp: image_iff)
    then have "filter (\<lambda>y. f y = f x) xs = []" by (simp add: filter_empty_conv)
    with True show ?thesis by simp
  next
    case False
    with Cons.prems have "x \<in> set xs" "f a \<noteq> f x" by (auto simp: image_iff)
    with Cons show ?thesis by simp
  qed
qed

lemma select_where_row_key:
  "select_where table s r = filter (\<lambda>y. row_key y = (s, r)) table"
  by (simp add: select_where_def row_key_def)

lemma unique_keys_select:
  assumes "unique_keys table" "rw \<in> set table"
  shows "select_where table (subject rw) (relationship rw) = [rw]"
  using distinct_filter_key [of row_key table rw] assms
  by (simp add: select_where_row_key unique_keys_def row_key_def)

lemma unique_keys_insert_or_replace:
  assumes "unique_keys table"
  shows "unique_keys (insert_or_replace table rw)"
proof -
  have "distinct (map row_key (filter (\<lambda>x. row_key x \<noteq> row_key rw) table))"
    using assms by (simp add: unique_keys_def distinct_map_filter)
  moreover have "row_key rw \<notin> row_key ` set (filter (\<lambda>x. row_key x \<noteq> row_key rw) table)"
    by auto
  ultimately show ?thesis
    by (simp add: unique_keys_def insert_or_replace_def)
qed

lemma select_where_insert_or_replace_same:
  "select_where (insert_or_replace table rw) (subject rw) (relationship rw) = [rw]"
  by (simp add: select_where_row_key insert_or_replace_def row_key_def filter_empty_conv)

lemma select_where_insert_or_replace_other:
  "(s, r) \<noteq> row_key rw \<Longrightarrow>
   select_where (insert_or_replace table rw) s r = select_where table s r"
  by (auto simp: select_where_row_key insert_or_replace_def intro: filter_cong)

lemma unique_keys_init10: "unique_keys (initialize_database10 clock)"
  by (simp add: unique_keys_def initialize_database10_def constants10_def constant_row_def
      row_key_def lower_def lower_char_def upper_letters_def lower_letters_def)

lemma unique_keys_learn_fact10:
  "unique_keys table \<Longrightarrow> unique_keys (snd (learn_fact10 table subj rel fct src now))"
  by (simp add: learn_fact10_def Let_def unique_keys_insert_or_replace)

lemma seeded10_eq: "seeded10 =
  [\<lparr>subject = ''ball'', relationship = ''shape'', fact_text = ''round'',
     is_immutable = True, source = ''System_Constant'', timestamp = 0\<rparr>,
   \<lparr>subject = ''france'', relationship = ''capital'', fact_text = ''Paris'',
     is_immutable = True, source = ''System_Constant'', timestamp = 0\<rparr>]"
  by (simp add: seeded10_def initialize_database10_def constants10_def constant_row_def clock0_def
      lower_def lower_char_def upper_letters_def lower_letters_def)

text \<open>The table after a user has taught the phase 10 engine that the moon's shape is round.\<close>

lemma moon_table:
  "snd (learn_fact10 seeded10 ''moon'' ''shape'' ''round'' ''user'' 1)
     = seeded10 @ [\<lparr>subject = ''moon'', relationship = ''shape'', fact_text = ''round'',
                     is_immutable = False, source = ''user'', timestamp = 1\<rparr>]"
  by (simp add: learn_fact10_def Let_def select_where_def seeded10_eq lower_simps
      insert_or_replace_def row_key_def)

text \<open>
  Claim C1. In the phase 10 engine, whose table keeps (subject, relationship) unique, when
  a row for (subject, relationship) exists and is not immutable, \<open>learn_fact\<close> returns
  \<open>UPDATED_BELIEF\<close>; the row of that key is replaced by one that holds the new fact, the
  new source and the new timestamp; the key stays unique, the rows of every other key are
  as before, and the query for the key returns the new fact alone. This holds for every
  relationship, the singular ones among them.
\<close>

theorem learn_fact10_updates_mutable:
  assumes "unique_keys table"
    and "rw \<in> set table"
    and "subject rw = lower subj" and "relationship rw = lower rel"
    and "\<not> is_immutable rw"
  shows "fst (learn_fact10 table subj rel fct src now) = ''UPDATED_BELIEF''
       \<and> select_where (snd (learn_fact10 table subj rel fct src now)) (lower subj) (lower rel)
           = [\<lparr>subject = lower subj, relationship = lower rel, fact_text = fct,
               is_immutable = False, source = src, timestamp = now\<rparr>]
       \<and> unique_keys (snd (learn_fact10 table subj rel fct src now))
       \<and> query_facts10 (snd (learn_fact10 table subj rel fct src now)) subj rel = [fct]
       \<and> (\<forall>s r. (s, r) \<noteq> (lower subj, lower rel) \<longrightarrow>
             select_where (snd (learn_fact10 table subj rel fct src now)) s r
               = select_where table s r)"
proof -
  let ?new = "\<lparr>subject = lower subj, relationship = lower rel, fact_text = fct,
               is_immutable = False, source = src, timestamp = now\<rparr>"
  have one: "select_where table (lower subj) (lower rel) = [rw]"
    using unique_keys_select [OF assms(1,2)] assms(3,4) by simp
  have res: "learn_fact10 table subj rel fct src now
      = (''UPDATED_BELIEF'', insert_or_replace table ?new)"
    using assms(5) by (simp add: learn_fact10_def Let_def one)
  have same: "select_where (insert_or_replace table ?new) (lower subj) (lower rel) = [?new]"
    using select_where_insert_or_replace_same [of table ?new] by simp
  have other: "select_where (insert_or_replace table ?new) s r = select_where table s r"
    if "(s, r) \<noteq> (lower subj, lower rel)" for s r
    using that by (simp add: select_where_insert_or_replace_other row_key_def)
  have uniq: "unique_keys (insert_or_replace table ?new)"
    using assms(1) by (rule unique_keys_insert_or_replace)
  show ?thesis
    using other by (simp add: res same uniq query_facts10_def)
qed

theorem learn_fact10_updates_mutable_witness:
  "fst (learn_fact10 (snd (learn_fact10 seeded10 ''moon'' ''shape'' ''round'' ''user'' 1))
          ''Moon'' ''Shape'' ''square'' ''user'' 2) = ''UPDATED_BELIEF''
   \<and> query_facts10 (snd (learn_fact10 (snd (learn_fact10 seeded10 ''moon'' ''shape'' ''round'' ''user'' 1))
          ''Moon'' ''Shape'' ''square'' ''user'' 2)) ''Moon'' ''Shape'' = [''square'']"
proof -
  let ?t = "snd (learn_fact10 seeded10 ''moon'' ''shape'' ''round'' ''user'' 1)"
  let ?rw = "\<lparr>subject = ''moon'', relationship = ''shape'', fact_text = ''round'',
                     is_immutable = False, source = ''user'', timestamp = 1\<rparr>"
  have l: "lower ''Moon'' = ''moon''" "lower ''Shape'' = ''shape''"
    by (simp_all add: lower_def lower_char_def upper_letters_def lower_letters_def)
  have 1: "unique_keys ?t"
    unfolding seeded10_def by (intro unique_keys_learn_fact10 unique_keys_init10)
  have 2: "?rw \<in> set ?t" unfolding moon_table by simp
  have 3: "subject ?rw = lower ''Moon''" "relationship ?rw = lower ''Shape''" by (simp_all add: l)
  have 4: "\<not> is_immutable ?rw" by simp
  show ?thesis
    using learn_fact10_updates_mutable [OF 1 2 3 4, of "''square''" "''user''" 2] by blast
qed

lemma learn_fact10_conflict_iff:
  "fst (learn_fact10 table subj rel fct src now) = ''CONFLICT_WITH_CONSTANT''
   \<longleftrightarrow> (\<exists>rw rest. select_where table (lower subj) (lower rel) = rw # rest \<and> is_immutable rw)"
  by (auto simp: learn_fact10_def Let_def split: list.splits)

lemma learn_fact10_conflict_unchanged:
  "fst (learn_fact10 table subj rel fct src now) = ''CONFLICT_WITH_CONSTANT''
   \<Longrightarrow> learn_fact10 table subj rel fct src now = (''CONFLICT_WITH_CONSTANT'', table)"
  by (auto simp: learn_fact10_def Let_def split: list.splits if_splits)

section \<open>The phase 10 response engine\<close>

text \<open>
  Claim C3. When the phase 10 response engine handles a thought with mood
  \<open>declarative_fact\<close> and a learning fact, and \<open>learn_fact\<close> returns
  \<open>CONFLICT_WITH_CONSTANT\<close>, the reply states the stored values that \<open>query_facts\<close> returns
  for the key, formatted by \<open>_format_list\<close>, and the table is left as it was. A single
  value is rendered alone; several are joined with commas, the last one after \<open>and\<close>.
\<close>

theorem generate_response10_conflict:
  assumes "mood core_thought = ''declarative_fact''"
    and "learning_fact core_thought = Some (subj, rel, fct)"
    and "fst (learn_fact10 kge subj rel fct ''user'' now) = ''CONFLICT_WITH_CONSTANT''"
  shows "generate_response10 core_thought kge now
           = (''That's interesting, but my understanding is that the '' @ rel @ '' of '' @ subj
              @ '' is '' @ format_list (query_facts10 kge subj rel) @ ''.'', kge)
       \<and> format_list [x] = x
       \<and> (items \<noteq> [] \<longrightarrow> format_list (items @ [y]) = join '', '' items @ '', and '' @ y)"
proof -
  have "learn_fact10 kge subj rel fct ''user'' now = (''CONFLICT_WITH_CONSTANT'', kge)"
    using assms(3) by (rule learn_fact10_conflict_unchanged)
  then have "generate_response10 core_thought kge now
           = (''That's interesting, but my understanding is that the '' @ rel @ '' of '' @ subj
              @ '' is '' @ format_list (query_facts10 kge subj rel) @ ''.'', kge)"
    using assms(1,2) by (simp add: generate_response10_def)
  then show ?thesis
    by (simp add: format_list_single format_list_snoc)
qed

theorem generate_response10_conflict_witness:
  "generate_response10 ball_is_square seeded10 1
     = (''That's interesting, but my understanding is that the shape of ball is round.'', seeded10)
   \<and> format_list [''engine'', ''wheel'', ''door''] = ''engine, wheel, and door''"
proof -
  have 1: "mood ball_is_square = ''declarative_fact''"
    and 2: "learning_fact ball_is_square = Some (''ball'', ''shape'', ''square'')"
    by (simp_all add: ball_is_square_def blank_thought_def)
  have 3: "fst (learn_fact10 seeded10 ''ball'' ''shape'' ''square'' ''user'' 1) = ''CONFLICT_WITH_CONSTANT''"
    by (simp add: learn_fact10_def Let_def select_where_def seeded10_eq lower_simps)
  have q: "query_facts10 seeded10 ''ball'' ''shape'' = [''round'']"
    by (simp add: query_facts10_def select_where_def seeded10_eq lower_simps)
  have ne: "[''engine'', ''wheel''] \<noteq> []" by simp
  note th = generate_response10_conflict [OF 1 2 3, of "''round''" "[''engine'', ''wheel'']" "''door''"]
  from th have a: "generate_response10 ball_is_square seeded10 1
     = (''That's interesting, but my understanding is that the '' @ ''shape'' @ '' of '' @ ''ball''
              @ '' is '' @ format_list (query_facts10 seeded10 ''ball'' ''shape'') @ ''.'', seeded10)"
    by blast
  from th ne have b: "format_list ([''engine'', ''wheel''] @ [''door''])
      = join '', '' [''engine'', ''wheel''] @ '', and '' @ ''door''"
    by blast
  show ?thesis
    using a b by (simp add: q format_list_single)
qed

section \<open>The enrichers\<close>

text \<open>
  Claim C7. When the agent of the current thought is a string that equals \<open>it\<close> up to
  case and the history is not empty, context resolution replaces the agent by the object
  of the last history entry if that is present (neither \<open>None\<close> nor empty), else by the
  agent of that entry if present. In every other case (no agent, an agent that is not
  \<open>it\<close>, an empty history, a last entry with neither object nor agent) the thought is
  returned as it is. The result depends on the last history entry only.
\<close>

theorem resolve_context_spec:
  "(agent current = Some a \<and> lower a = ''it'' \<and> history \<noteq> []
      \<and> truthy (object (last history))
      \<longrightarrow> resolve_context history current = current\<lparr>agent := object (last history)\<rparr>)
   \<and> (agent current = Some a \<and> lower a = ''it'' \<and> history \<noteq> []
      \<and> \<not> truthy (object (last history)) \<and> truthy (agent (last history))
      \<longrightarrow> resolve_context history current = current\<lparr>agent := agent (last history)\<rparr>)
   \<and> (agent current = None \<or> (agent current = Some a \<and> lower a \<noteq> ''it'') \<or> history = []
        \<or> (\<not> truthy (object (last history)) \<and> \<not> truthy (agent (last history)))
      \<longrightarrow> resolve_context history current = current)
   \<and> resolve_context (earlier @ [previous]) current = resolve_context [previous] current"
  by (auto simp: resolve_context_def py_or_def Let_def split: option.splits)

theorem resolve_context_spec_witness:
  "resolve_context [the_cat_slept, threw_the_ball] it_bounced = it_bounced\<lparr>agent := Some ''the ball''\<rparr>
   \<and> resolve_context [threw_the_ball, the_cat_slept] it_bounced = it_bounced\<lparr>agent := Some ''The cat''\<rparr>
   \<and> resolve_context [] it_bounced = it_bounced
   \<and> resolve_context [threw_the_ball] the_cat_slept = the_cat_slept"
proof -
  have it: "agent it_bounced = Some ''It''" "lower ''It'' = ''it''"
    by (simp_all add: it_bounced_def blank_thought_def lower_eq_it)
  have cat: "agent the_cat_slept = Some ''The cat''" "lower ''The cat'' \<noteq> ''it''"
    by (simp_all add: the_cat_slept_def blank_thought_def lower_eq_it)
  have o1: "object (last [the_cat_slept, threw_the_ball]) = Some ''the ball''"
    "truthy (object (last [the_cat_slept, threw_the_ball]))"
    by (simp_all add: threw_the_ball_def blank_thought_def truthy_def)
  have o2: "agent (last [threw_the_ball, the_cat_slept]) = Some ''The cat''"
    "\<not> truthy (object (last [threw_the_ball, the_cat_slept]))"
    "truthy (agent (last [threw_the_ball, the_cat_slept]))"
    by (simp_all add: the_cat_slept_def blank_thought_def truthy_def)
  have ne: "[the_cat_slept, threw_the_ball] \<noteq> []" "[threw_the_ball, the_cat_slept] \<noteq> []"
    by simp_all
  have a: "resolve_context [the_cat_slept, threw_the_ball] it_bounced
      = it_bounced\<lparr>agent := Some ''the ball''\<rparr>"
    using resolve_context_spec [of it_bounced "''It''" "[the_cat_slept, threw_the_ball]"]
      it o1 ne by simp
  have b: "resolve_context [threw_the_ball, the_cat_slept] it_bounced
      = it_bounced\<lparr>agent := Some ''The cat''\<rparr>"
    using resolve_context_spec [of it_bounced "''It''" "[threw_the_ball, the_cat_slept]"]
      it o2 ne by simp
  have c: "resolve_context [] it_bounced = it_bounced"
    using resolve_context_spec [of it_bounced "''It''" "[]"] by simp
  have d: "resolve_context [threw_the_ball] the_cat_slept = the_cat_slept"
    using resolve_context_spec [of the_cat_slept "''The cat''" "[threw_the_ball]"] cat by simp
  show ?thesis using a b c d by simp
qed

text \<open>
  Claim C8. Tone enrichment changes the field \<open>tone\<close> only, and sets it to \<open>sarcastic\<close>
  if and only if the lower-cased input sentence contains one of the five positive words
  (as a substring, which is what \<open>word in sentence\<close> tests) and the action is one of the
  five negative-context verbs; otherwise it sets it to \<open>neutral\<close>.
\<close>

theorem tone_analyze_thought_spec:
  "tone_analyze_thought t =
     t\<lparr>tone :=
         (if (\<exists>word \<in> set sarcastic_positives. \<exists>ps ss. lower (input_sentence t) = ps @ word @ ss)
              \<and> (\<exists>verb \<in> set negative_context_verbs. action t = Some verb)
          then ''sarcastic'' else ''neutral'')\<rparr>
   \<and> set sarcastic_positives = {''great'', ''perfect'', ''fantastic'', ''wonderful'', ''lovely''}
   \<and> set negative_context_verbs = {''spill'', ''break'', ''lose'', ''forget'', ''drop''}"
proof -
  have "list_ex (\<lambda>word. str_in word (lower (input_sentence t))) sarcastic_positives
      \<longleftrightarrow> (\<exists>word \<in> set sarcastic_positives. \<exists>ps ss. lower (input_sentence t) = ps @ word @ ss)"
    by (simp add: list_ex_iff str_in_iff)
  moreover have "(case action t of None \<Rightarrow> False | Some a \<Rightarrow> a \<in> set negative_context_verbs)
      \<longleftrightarrow> (\<exists>verb \<in> set negative_context_verbs. action t = Some verb)"
    by (auto split: option.splits)
  ultimately have "tone_analyze_thought t =
     t\<lparr>tone :=
         (if (\<exists>word \<in> set sarcastic_positives. \<exists>ps ss. lower (input_sentence t) = ps @ word @ ss)
              \<and> (\<exists>verb \<in> set negative_context_verbs. action t = Some verb)
          then ''sarcastic'' else ''neutral'')\<rparr>"
    by (simp add: tone_analyze_thought_def Let_def)
  then show ?thesis
    by (simp add: sarcastic_positives_def negative_context_verbs_def)
qed

theorem tone_analyze_thought_spec_witness:
  "tone (tone_analyze_thought dropped_it) = ''sarcastic''
   \<and> tone (tone_analyze_thought won_the_race) = ''neutral''"
proof -
  have s1: "lower (input_sentence dropped_it) = ''that's just '' @ ''great'' @ '', i dropped it.''"
    by (simp add: dropped_it_def blank_thought_def lower_def lower_char_def upper_letters_def
        lower_letters_def)
  have p1: "\<exists>word \<in> set sarcastic_positives. \<exists>ps ss. lower (input_sentence dropped_it) = ps @ word @ ss"
    unfolding s1 sarcastic_positives_def by (intro bexI [of _ "''great''"] exI) (rule refl, simp)
  have v1: "\<exists>verb \<in> set negative_context_verbs. action dropped_it = Some verb"
    by (simp add: dropped_it_def blank_thought_def negative_context_verbs_def)
  have v2: "\<not> (\<exists>verb \<in> set negative_context_verbs. action won_the_race = Some verb)"
    by (simp add: won_the_race_def blank_thought_def negative_context_verbs_def)
  have a: "tone (tone_analyze_thought dropped_it) = ''sarcastic''"
    using tone_analyze_thought_spec [of dropped_it] p1 v1 by simp
  have b: "tone (tone_analyze_thought won_the_race) = ''neutral''"
    using tone_analyze_thought_spec [of won_the_race] v2 by simp
  show ?thesis using a b by simp
qed

section \<open>The final response engine and the turn\<close>

text \<open>
  Claim C9. \<open>learn_fact\<close> of the phase 9 engine returns one of three strings, none of them
  empty. So when the response engine of sclm\_final\_interactive.py is given that engine,
  its rule for a declarative fact always takes the branch of a true \<open>success\<close>: the reply
  says that the fact was learned, whatever the outcome was, and is never the reply of the
  other branch; the table is the one \<open>learn_fact\<close> leaves.
\<close>

theorem generate_response_always_learned:
  "fst (learn_fact table subj rel fct src now)
     \<in> {''CONFLICT_WITH_CONSTANT'', ''ALREADY_KNOWN'', ''LEARNED_SUCCESSFULLY''}
   \<and> fst (learn_fact table subj rel fct src now) \<noteq> []
   \<and> (mood core_thought = ''declarative_fact'' \<and> learning_fact core_thought = Some (subj, rel, fct)
        \<longrightarrow> fst (generate_response (kge_learn now) query core_thought table)
              = Inr (''Okay, I've learned that the '' @ rel @ '' of '' @ subj @ '' is '' @ fct @ ''.'')
          \<and> fst (generate_response (kge_learn now) query core_thought table)
              \<noteq> Inr ''I had trouble remembering that. Could you try phrasing it differently?''
          \<and> snd (generate_response (kge_learn now) query core_thought table)
              = snd (learn_fact table subj rel fct ''user'' now))"
proof -
  have out: "fst (learn_fact table subj rel fct src now)
     \<in> {''CONFLICT_WITH_CONSTANT'', ''ALREADY_KNOWN'', ''LEARNED_SUCCESSFULLY''}"
    by (rule learn_fact_outcomes)
  then have ne: "fst (learn_fact table subj rel fct src now) \<noteq> []" by auto
  have user: "fst (learn_fact table subj rel fct ''user'' now) \<noteq> []"
    using learn_fact_outcomes [of table subj rel fct "''user''" now] by auto
  have "fst (generate_response (kge_learn now) query core_thought table)
              = Inr (''Okay, I've learned that the '' @ rel @ '' of '' @ subj @ '' is '' @ fct @ ''.'')
      \<and> snd (generate_response (kge_learn now) query core_thought table)
              = snd (learn_fact table subj rel fct ''user'' now)"
    if "mood core_thought = ''declarative_fact''" "learning_fact core_thought = Some (subj, rel, fct)"
    using that user by (auto simp: generate_response_def kge_learn_def split: prod.splits)
  with out ne show ?thesis by simp
qed

theorem generate_response_always_learned_witness:
  "fst (learn_fact seeded ''ball'' ''shape'' ''square'' ''user'' 1) = ''CONFLICT_WITH_CONSTANT''
   \<and> generate_response (kge_learn 1) kge_query_fact ball_is_square seeded
       = (Inr ''Okay, I've learned that the shape of ball is square.'', seeded)"
proof -
  have 1: "mood ball_is_square = ''declarative_fact''
      \<and> learning_fact ball_is_square = Some (''ball'', ''shape'', ''square'')"
    by (simp add: ball_is_square_def blank_thought_def)
  have c: "learn_fact seeded ''ball'' ''shape'' ''square'' ''user'' 1 = (''CONFLICT_WITH_CONSTANT'', seeded)"
    by (simp add: learn_fact_def Let_def select_where_def seeded_eq lower_simps
        singular_relationships_def)
  have "fst (generate_response (kge_learn 1) kge_query_fact ball_is_square seeded)
          = Inr (''Okay, I've learned that the '' @ ''shape'' @ '' of '' @ ''ball'' @ '' is '' @ ''square'' @ ''.'')
      \<and> snd (generate_response (kge_learn 1) kge_query_fact ball_is_square seeded)
          = snd (learn_fact seeded ''ball'' ''shape'' ''square'' ''user'' 1)"
    using generate_response_always_learned
      [of seeded "''ball''" "''shape''" "''square''" "''user''" 1 ball_is_square kge_query_fact] 1
    by blast
  then have "generate_response (kge_learn 1) kge_query_fact ball_is_square seeded
       = (Inr ''Okay, I've learned that the shape of ball is square.'', seeded)"
    unfolding c by (cases "generate_response (kge_learn 1) kge_query_fact ball_is_square seeded") simp
  with c show ?thesis by simp
qed

text \<open>
  Claim C6, as stated, fails: in a turn whose response engine fails (here the engine's
  \<open>learn_fact\<close> raises), the caller gets the exception and no reply, and the history
  already holds the thought of the turn.
\<close>

theorem handle_message_failure_counterexample:
  "fst (handle_message (scripted_parser [(''A ball is square.'', ball_is_square)])
          (failing_learn OperationalError) kge_query_fact
          \<lparr>conversation_history = [], knowledge_engine = seeded\<rparr> ''A ball is square.'')
     = Inl OperationalError
   \<and> conversation_history
        (snd (handle_message (scripted_parser [(''A ball is square.'', ball_is_square)])
          (failing_learn OperationalError) kge_query_fact
          \<lparr>conversation_history = [], knowledge_engine = seeded\<rparr> ''A ball is square.''))
     = [ball_is_square]
   \<and> [ball_is_square] \<noteq> []"
  by (simp add: handle_message_def scripted_parser_def generate_response_def failing_learn_def
      ball_is_square_def blank_thought_def resolve_context_def nuance_analyze_thought_def
      tone_analyze_thought_def Let_def)

lemma handle_message_eq:
  "handle_message parse learn query dm message =
     (fst (generate_response learn query (enrich (conversation_history dm) (parse message))
             (knowledge_engine dm)),
      \<lparr>conversation_history =
         conversation_history dm @ [enrich (conversation_history dm) (parse message)],
       knowledge_engine =
         snd (generate_response learn query (enrich (conversation_history dm) (parse message))
               (knowledge_engine dm))\<rparr>)"
  by (simp add: handle_message_def enrich_def Let_def split_beta)

lemma generate_response_learn_error:
  assumes "mood core_thought = ''declarative_fact''"
    and "learning_fact core_thought = Some (subj, rel, fct)"
    and "fst (learn ke subj rel fct) = Inl e"
  shows "fst (generate_response learn query core_thought ke) = Inl e"
  using assms by (cases "learn ke subj rel fct") (simp add: generate_response_def)

lemma get_response_eq:
  "get_response parse history message
     = (chat_generate_response (enrich history (parse message)),
        history @ [enrich history (parse message)])"
  by (simp add: get_response_def enrich_def Let_def)

text \<open>
  Claim C6, amended. In every turn \<open>handle_message\<close> runs the context resolver, the
  nuance enricher and the tone enricher in this order, appends the enriched thought to the
  history, and only then runs the response engine on that thought. The history is extended
  whatever the response engine does; its result is handed to the caller as it is, so an
  exception of the knowledge engine reaches the caller and no fallback reply is made.
  \<open>get_response\<close> of sclm\_interactive\_chat.py appends and replies in the same order.
\<close>

theorem handle_message_appends_before_response:
  "conversation_history (snd (handle_message parse learn query dm message))
     = conversation_history dm @ [enrich (conversation_history dm) (parse message)]
   \<and> fst (handle_message parse learn query dm message)
     = fst (generate_response learn query (enrich (conversation_history dm) (parse message))
             (knowledge_engine dm))
   \<and> knowledge_engine (snd (handle_message parse learn query dm message))
     = snd (generate_response learn query (enrich (conversation_history dm) (parse message))
             (knowledge_engine dm))
   \<and> (fst (learn (knowledge_engine dm) subj rel fct) = Inl e
        \<and> mood (enrich (conversation_history dm) (parse message)) = ''declarative_fact''
        \<and> learning_fact (enrich (conversation_history dm) (parse message)) = Some (subj, rel, fct)
      \<longrightarrow> fst (handle_message parse learn query dm message) = Inl e)
   \<and> get_response parse history message
     = (chat_generate_response (enrich history (parse message)),
        history @ [enrich history (parse message)])"
  by (simp add: handle_message_eq get_response_eq generate_response_learn_error)

theorem handle_message_appends_before_response_witness:
  "conversation_history
     (snd (handle_message (scripted_parser [(''A ball is square.'', ball_is_square)])
            (failing_learn OperationalError) kge_query_fact
            \<lparr>conversation_history = [threw_the_ball], knowledge_engine = seeded\<rparr>
            ''A ball is square.''))
     = [threw_the_ball, ball_is_square]
   \<and> fst (handle_message (scripted_parser [(''A ball is square.'', ball_is_square)])
            (failing_learn OperationalError) kge_query_fact
            \<lparr>conversation_history = [threw_the_ball], knowledge_engine = seeded\<rparr>
            ''A ball is square.'')
     = Inl OperationalError"
proof -
  let ?parse = "scripted_parser [(''A ball is square.'', ball_is_square)]"
  let ?dm = "\<lparr>conversation_history = [threw_the_ball], knowledge_engine = seeded\<rparr>"
  have p: "?parse ''A ball is square.'' = ball_is_square"
    by (simp add: scripted_parser_def)
  have e: "enrich [threw_the_ball] ball_is_square = ball_is_square"
    by (simp add: enrich_def ball_is_square_def blank_thought_def resolve_context_def
        nuance_analyze_thought_def tone_analyze_thought_def Let_def)
  have f: "fst (failing_learn OperationalError seeded ''ball'' ''shape'' ''square'')
      = (Inl OperationalError :: error + pyval)"
    by (simp add: failing_learn_def)
  have m: "mood ball_is_square = ''declarative_fact''"
    "learning_fact ball_is_square = Some (''ball'', ''shape'', ''square'')"
    by (simp_all add: ball_is_square_def blank_thought_def)
  note th = handle_message_appends_before_response
    [of ?parse "failing_learn OperationalError" kge_query_fact ?dm "''A ball is square.''"
        "''ball''" "''shape''" "''square''" OperationalError]
  have a: "conversation_history
       (snd (handle_message ?parse (failing_learn OperationalError) kge_query_fact ?dm
              ''A ball is square.''))
      = [threw_the_ball, ball_is_square]"
    using th unfolding dialogue_manager.select_convs p e by simp
  have b: "fst (handle_message ?parse (failing_learn OperationalError) kge_query_fact ?dm
              ''A ball is square.'') = Inl OperationalError"
    using th f m unfolding dialogue_manager.select_convs p e by blast
  show ?thesis using a b by simp
qed

section \<open>Where the two knowledge engines differ\<close>

text \<open>
  The phase 9 engine has no update: a second, different fact for a singular relationship
  whose row is not immutable is added as a second row, and the query returns both.
\<close>

theorem learn_fact_singular_second_row:
  "lower ''shape'' \<in> set singular_relationships
   \<and> fst (learn_fact seeded ''moon'' ''shape'' ''round'' ''user'' 1) = ''LEARNED_SUCCESSFULLY''
   \<and> fst (learn_fact (snd (learn_fact seeded ''moon'' ''shape'' ''round'' ''user'' 1))
            ''moon'' ''shape'' ''square'' ''user'' 2) = ''LEARNED_SUCCESSFULLY''
   \<and> query_facts (snd (learn_fact (snd (learn_fact seeded ''moon'' ''shape'' ''round'' ''user'' 1))
            ''moon'' ''shape'' ''square'' ''user'' 2)) ''moon'' ''shape'' = [''round'', ''square'']"
  by (simp add: learn_fact_def Let_def query_facts_def select_where_def seeded_eq lower_simps
      singular_relationships_def)

text \<open>
  The phase 10 engine rejects every fact for a key whose row is immutable, whatever the
  relationship, and leaves the table as it is.
\<close>

theorem learn_fact10_conflict_with_constant:
  assumes "unique_keys table"
    and "rw \<in> set table"
    and "subject rw = lower subj" and "relationship rw = lower rel"
    and "is_immutable rw"
  shows "learn_fact10 table subj rel fct src now = (''CONFLICT_WITH_CONSTANT'', table)
       \<and> query_facts10 table subj rel = [fact_text rw]"
proof -
  have one: "select_where table (lower subj) (lower rel) = [rw]"
    using unique_keys_select [OF assms(1,2)] assms(3,4) by simp
  then show ?thesis
    using assms(5) by (simp add: learn_fact10_def Let_def query_facts10_def)
qed

theorem learn_fact10_conflict_with_constant_witness:
  "learn_fact10 seeded10 ''France'' ''Capital'' ''Lyon'' ''user'' 1
     = (''CONFLICT_WITH_CONSTANT'', seeded10)
   \<and> query_facts10 seeded10 ''France'' ''Capital'' = [''Paris'']"
proof -
  let ?rw = "\<lparr>subject = ''france'', relationship = ''capital'', fact_text = ''Paris'',
     is_immutable = True, source = ''System_Constant'', timestamp = 0\<rparr>"
  have l: "lower ''France'' = ''france''" "lower ''Capital'' = ''capital''"
    by (simp_all add: lower_def lower_char_def upper_letters_def lower_letters_def)
  have 1: "unique_keys seeded10"
    unfolding seeded10_def by (rule unique_keys_init10)
  have 2: "?rw \<in> set seeded10" by (simp add: seeded10_eq)
  have 3: "subject ?rw = lower ''France''" "relationship ?rw = lower ''Capital''"
    by (simp_all add: l)
  have 4: "is_immutable ?rw" by simp
  show ?thesis
    using learn_fact10_conflict_with_constant [OF 1 2 3 4, of "''Lyon''" "''user''" 1]
    unfolding row.select_convs .
qed

text \<open>
  The phase 10 engine keeps one fact for each (subject, relationship): a second fact for
  a key replaces the first, also for a relationship such as \<open>has_part\<close>.
\<close>

theorem learn_fact10_second_fact_replaces:
  "fst (learn_fact10 seeded10 ''car'' ''has_part'' ''engine'' ''user'' 1) = ''LEARNED_SUCCESSFULLY''
   \<and> fst (learn_fact10 (snd (learn_fact10 seeded10 ''car'' ''has_part'' ''engine'' ''user'' 1))
            ''car'' ''has_part'' ''wheel'' ''user'' 2) = ''UPDATED_BELIEF''
   \<and> query_facts10 (snd (learn_fact10 (snd (learn_fact10 seeded10 ''car'' ''has_part'' ''engine'' ''user'' 1))
            ''car'' ''has_part'' ''wheel'' ''user'' 2)) ''car'' ''has_part'' = [''wheel'']"
  by (simp add: learn_fact10_def Let_def query_facts10_def select_where_def seeded10_eq
      lower_simps insert_or_replace_def row_key_def)

end
